theory Spec2Isabelle
  imports Main
begin

section \<open>The appointment endpoint (src/api/appointment.js)\<close>

text \<open>
  The file exports one asynchronous request handler. It validates the bearer token of the
  cookie (\<open>decodeJWT\<close>), checks the caller's role (\<open>checkAuthorization\<close>) and serves four
  routes on the appointment collection. The handler is embedded as a function from the
  request, the database contents and the request's environment to the new database
  contents, the calls made on the response object and the way the handler completes.
  Record fields keep the source's names behind a prefix for their owner
  (\<open>u_\<close> user document, \<open>a_\<close> appointment document, \<open>b_\<close> request body, \<open>c_\<close> token claims).
\<close>

subsection \<open>JavaScript values\<close>

text \<open>
  A string that may be \<open>undefined\<close> is a \<open>string option\<close>. The source tests such values
  with \<open>!v\<close>: \<open>undefined\<close> and the empty string are falsy, every other string is truthy.
\<close>

definition falsy :: "string option \<Rightarrow> bool" where
  "falsy v = (case v of None \<Rightarrow> True | Some s \<Rightarrow> s = [])"

text \<open>
  \<open>String.prototype.toLowerCase\<close> and \<open>toUpperCase\<close> on the ASCII letters; every other
  character is kept. The handler lower-cases an appointment name only to look it up in a
  list of ASCII names, and upper-cases only the request method.
\<close>

definition lower_char :: "char \<Rightarrow> char" where
  "lower_char c =
     (case map_of (zip ''ABCDEFGHIJKLMNOPQRSTUVWXYZ'' ''abcdefghijklmnopqrstuvwxyz'') c of
        Some d \<Rightarrow> d
      | None \<Rightarrow> c)"

definition upper_char :: "char \<Rightarrow> char" where
  "upper_char c =
     (case map_of (zip ''abcdefghijklmnopqrstuvwxyz'' ''ABCDEFGHIJKLMNOPQRSTUVWXYZ'') c of
        Some d \<Rightarrow> d
      | None \<Rightarrow> c)"

definition toLowerCase :: "string \<Rightarrow> string" where
  "toLowerCase s = map lower_char s"

definition toUpperCase :: "string \<Rightarrow> string" where
  "toUpperCase s = map upper_char s"

subsection \<open>The database\<close>

text \<open>
  Modelled from the spec: the three collections \<open>User\<close>, \<open>Token\<close> and \<open>Appointment\<close>
  (\<open>../models/users.js\<close>, \<open>../models/token.js\<close>, \<open>../models/appointment.js\<close>) and the store
  operations the handler calls on them are not part of the source file. The spec gives an
  account an opaque id, a role and a denormalized appointment name, an appointment an
  opaque id, a name, a role class and a reference to an account that may be unset, and
  the store adapter find-all, find-by-id, insert, update-by-id and delete-by-id, with the
  appointments in the store's natural order. A collection is the list of its documents in
  that order; an operation by id acts on the first document with that id.
\<close>

record user_doc =
  u_id :: string
  u_account_name :: string
  u_account_type :: "string option"
  u_appointment :: "string option"

record appointment_doc =
  a_id :: string
  a_appointment_name :: string
  a_account_type :: string
  a_account_id :: "string option"

record store =
  users :: "user_doc list"
  tokens :: "string list"
  appointments :: "appointment_doc list"

text \<open>
  Modelled from the spec: \<open>User.findById(id)\<close>. An \<open>undefined\<close> id finds nothing.
\<close>

definition User_findById :: "user_doc list \<Rightarrow> string option \<Rightarrow> user_doc option" where
  "User_findById us i =
     (case i of None \<Rightarrow> None | Some k \<Rightarrow> find (\<lambda>u. u_id u = k) us)"

text \<open>
  Modelled from the spec: \<open>User.updateOne({ _id: id }, { $set: { appointment: name } })\<close>.
  Nothing changes when no account has the id.
\<close>

fun User_updateOne :: "user_doc list \<Rightarrow> string \<Rightarrow> string \<Rightarrow> user_doc list" where
  "User_updateOne [] k name = []"
| "User_updateOne (u # us) k name =
     (if u_id u = k then u\<lparr>u_appointment := Some name\<rparr> # us
      else u # User_updateOne us k name)"

text \<open>
  Modelled from the spec: \<open>Token.findOne({ token })\<close>, read for its truthiness only: is the
  token string in the log of consumed tokens.
\<close>

definition Token_findOne :: "string list \<Rightarrow> string \<Rightarrow> bool" where
  "Token_findOne ts t = (t \<in> set ts)"

text \<open>
  Modelled from the spec: \<open>Appointment.findById(id)\<close>.
\<close>

definition Appointment_findById ::
  "appointment_doc list \<Rightarrow> string \<Rightarrow> appointment_doc option" where
  "Appointment_findById as k = find (\<lambda>a. a_id a = k) as"

text \<open>
  Modelled from the spec: \<open>new Appointment({...}).save()\<close>. The new document is last in
  the natural order.
\<close>

definition Appointment_save ::
  "appointment_doc list \<Rightarrow> appointment_doc \<Rightarrow> appointment_doc list" where
  "Appointment_save as a = as @ [a]"

text \<open>
  Modelled from the spec: \<open>Appointment.updateOne({ _id: id }, { account_id })\<close>.
\<close>

fun Appointment_updateOne ::
  "appointment_doc list \<Rightarrow> string \<Rightarrow> string \<Rightarrow> appointment_doc list" where
  "Appointment_updateOne [] k acc = []"
| "Appointment_updateOne (a # as) k acc =
     (if a_id a = k then a\<lparr>a_account_id := Some acc\<rparr> # as
      else a # Appointment_updateOne as k acc)"

text \<open>
  Modelled from the spec: \<open>Appointment.findByIdAndDelete(id)\<close>.
\<close>

fun Appointment_findByIdAndDelete ::
  "appointment_doc list \<Rightarrow> string \<Rightarrow> appointment_doc list" where
  "Appointment_findByIdAndDelete [] k = []"
| "Appointment_findByIdAndDelete (a # as) k =
     (if a_id a = k then as else a # Appointment_findByIdAndDelete as k)"

subsection \<open>Request, response and environment\<close>

text \<open>
  The claims of a verified token, as far as the handler reads them: \<open>decoded.id\<close>,
  \<open>decoded.exp\<close> (seconds) and the truthiness of \<open>decoded.error\<close>.
\<close>

record claims =
  c_id :: "string option"
  c_exp :: "int option"
  c_error :: bool

record body =
  b_appointment_name :: "string option"
  b_account_type :: "string option"
  b_account_id :: "string option"
  b_appointment_id :: "string option"

text \<open>
  The request: \<open>req.method\<close>, the headers \<open>origin\<close> and \<open>x-route\<close>, the cookie \<open>token\<close>,
  \<open>req.body\<close> and \<open>req.query?.id\<close>.
\<close>

record req =
  req_method :: string
  origin :: "string option"
  x_route :: "string option"
  cookie_token :: "string option"
  req_body :: "body option"
  query_id :: "string option"

text \<open>
  An enriched list item is the appointment with \<open>account_id\<close> set to the account's
  \<open>_id\<close>, together with the account's \<open>account_name\<close>; a plain item is the appointment
  document itself.
\<close>

datatype listed = Enriched appointment_doc string | Plain appointment_doc

datatype payload = Message string | Json_list "listed list" | No_body

text \<open>
  The response object records its headers and, in order, every call
  \<open>res.status(s).json(b)\<close> and \<open>res.status(s).end()\<close> the handler makes on it. An HTTP
  client receives the first of them; what the framework does with a later call is outside
  the file and is not modelled. Both calls return the response object itself, the way
  \<open>status\<close> does for the chained call: the source relies on it in line 88, where a
  failure of \<open>checkAuthorization\<close> is recognised by its truthy value.
\<close>

record res =
  headers :: "(string \<times> string) list"
  sent :: "(nat \<times> payload) list"

definition setHeader :: "string \<Rightarrow> string \<Rightarrow> res \<Rightarrow> res" where
  "setHeader k v r = r\<lparr>headers := headers r @ [(k, v)]\<rparr>"

definition status_json :: "nat \<Rightarrow> payload \<Rightarrow> res \<Rightarrow> res" where
  "status_json st b r = r\<lparr>sent := sent r @ [(st, b)]\<rparr>"

definition status_end :: "nat \<Rightarrow> res \<Rightarrow> res" where
  "status_end st r = r\<lparr>sent := sent r @ [(st, No_body)]\<rparr>"

text \<open>
  A fault raised by a collaborator: its message and \<open>err.response.status\<close>, which is
  \<open>None\<close> for an error without a \<open>response\<close> property.
\<close>

record fault =
  fault_message :: string
  fault_response_status :: "nat option"

datatype js_error = ReferenceError string | TypeError string | Other_error string

datatype completion = Returned | Rejected js_error

text \<open>
  What the handler takes from outside the file: \<open>jwt.verify\<close> with the configured secret
  (\<open>Inl m\<close>: it throws an error with message \<open>m\<close>; \<open>Inr None\<close>: it returns a falsy value;
  \<open>Inr (Some d)\<close>: the decoded claims), \<open>Date.now()\<close> in milliseconds, the fault of
  \<open>connectToDatabase()\<close> if it raises one, the \<open>_id\<close> given to a new appointment
  document, and the global \<open>handleServerError\<close>, which the file neither declares nor
  imports (\<open>None\<close>: the name is unbound; \<open>Some h\<close>: \<open>h status\<close> is the error the call
  throws, if any).
\<close>

record env =
  jwt_verify :: "string \<Rightarrow> string + claims option"
  now_ms :: int
  connect_fault :: "fault option"
  new_object_id :: string
  handleServerError :: "(nat \<Rightarrow> js_error option) option"

record outcome =
  final_store :: store
  final_res :: res
  completion :: completion

subsection \<open>decodeJWT (lines 10 to 25)\<close>

datatype auth_error =
  Missing_authorization_token
  | Verify_error string
  | Invalid_token
  | Token_expired
  | Token_already_used

fun error_message :: "auth_error \<Rightarrow> string" where
  "error_message Missing_authorization_token = ''Missing authorization token''"
| "error_message (Verify_error m) = m"
| "error_message Invalid_token = ''Invalid token''"
| "error_message Token_expired = ''Token expired''"
| "error_message Token_already_used = ''Token already used''"

text \<open>
  \<open>decoded.exp < Date.now() / 1000\<close>, with both sides multiplied by 1000. A token
  without \<open>exp\<close> compares \<open>undefined\<close> with a number, which is false.
\<close>

definition expired :: "env \<Rightarrow> claims \<Rightarrow> bool" where
  "expired e d = (case c_exp d of None \<Rightarrow> False | Some x \<Rightarrow> 1000 * x < now_ms e)"

text \<open>
  The body of the \<open>try\<close> block: \<open>Inl\<close> is the error thrown, \<open>Inr\<close> the claims returned.
\<close>

definition decodeJWT_try :: "env \<Rightarrow> store \<Rightarrow> string option \<Rightarrow> auth_error + claims" where
  "decodeJWT_try e s token =
     (case token of
        None \<Rightarrow> Inl Missing_authorization_token
      | Some t \<Rightarrow>
          if t = [] then Inl Missing_authorization_token
          else
            (case jwt_verify e t of
               Inl m \<Rightarrow> Inl (Verify_error m)
             | Inr None \<Rightarrow> Inl Invalid_token
             | Inr (Some d) \<Rightarrow>
                 if expired e d then Inl Token_expired
                 else if Token_findOne (tokens s) t then Inl Token_already_used
                 else Inr d))"

text \<open>
  What \<open>decodeJWT\<close> returns: the decoded claims, the response object (the value of
  \<open>res.status(401).json(...)\<close>) or \<open>null\<close>.
\<close>

datatype decoded = Decoded claims | Res_object | Null

text \<open>
  \<open>decodeJWT(token, res, sendResponse)\<close>; every call in the file passes the response
  object and leaves \<open>sendResponse\<close> at its default \<open>true\<close>.
\<close>

definition decodeJWT ::
  "env \<Rightarrow> store \<Rightarrow> string option \<Rightarrow> res \<Rightarrow> bool \<Rightarrow> decoded \<times> res" where
  "decodeJWT e s token r sendResponse =
     (case decodeJWT_try e s token of
        Inr d \<Rightarrow> (Decoded d, r)
      | Inl err \<Rightarrow>
          if sendResponse then (Res_object, status_json 401 (Message (error_message err)) r)
          else (Null, r))"

subsection \<open>checkAuthorization (lines 27 to 31)\<close>

definition default_allowed :: "string list" where
  "default_allowed = [''Admin'', ''Officer'', ''Primer'', ''Boy'']"

text \<open>
  The result is \<open>Some r\<close> for the response object returned after a failure was sent on it,
  and \<open>None\<close> for \<open>null\<close>.
\<close>

definition checkAuthorization :: "string option \<Rightarrow> res \<Rightarrow> string list \<Rightarrow> res option" where
  "checkAuthorization tokenType r allowed =
     (case tokenType of
        None \<Rightarrow> Some (status_json 400 (Message ''Missing token type'') r)
      | Some t \<Rightarrow>
          if t = [] then Some (status_json 400 (Message ''Missing token type'') r)
          else if t \<notin> set allowed then Some (status_json 403 (Message ''Invalid token type'') r)
          else None)"

subsection \<open>The handler (lines 33 to 149)\<close>

definition cors_headers :: "req \<Rightarrow> res \<Rightarrow> res" where
  "cors_headers rq r =
     setHeader ''Access-Control-Max-Age'' ''86400''
      (setHeader ''Access-Control-Allow-Credentials'' ''true''
        (setHeader ''Access-Control-Allow-Headers'' ''Content-Type, x-route''
          (setHeader ''Access-Control-Allow-Methods'' ''GET, POST, PUT, DELETE, OPTIONS''
            (setHeader ''Access-Control-Allow-Origin''
               (if falsy (origin rq) then ''*'' else the (origin rq)) r))))"

text \<open>
  The loop of lines 62 to 75: one account lookup for each appointment, in order, the
  item pushed onto \<open>updatedAppointments\<close>.
\<close>

fun enrich_loop :: "user_doc list \<Rightarrow> appointment_doc list \<Rightarrow> listed list \<Rightarrow> listed list" where
  "enrich_loop us [] updatedAppointments = updatedAppointments"
| "enrich_loop us (a # as) updatedAppointments =
     (case User_findById us (a_account_id a) of
        Some user \<Rightarrow>
          enrich_loop us as
            (updatedAppointments @
               [Enriched (a\<lparr>a_account_id := Some (u_id user)\<rparr>) (u_account_name user)])
      | None \<Rightarrow> enrich_loop us as (updatedAppointments @ [Plain a]))"

text \<open>
  \<open>GET /get_appointments\<close> (lines 57 to 78). The value of \<open>decodeJWT\<close> is not read.
\<close>

definition get_appointments :: "env \<Rightarrow> store \<Rightarrow> req \<Rightarrow> res \<Rightarrow> store \<times> res" where
  "get_appointments e s rq r =
     (case decodeJWT e s (cookie_token rq) r True of
        (decoded, r1) \<Rightarrow>
          (s, status_json 200 (Json_list (enrich_loop (users s) (appointments s) [])) r1))"

text \<open>
  \<open>!decoded || decoded.error\<close> and \<open>decoded.id\<close>: the response object is truthy and has
  neither property.
\<close>

definition falsy_or_error :: "decoded \<Rightarrow> bool" where
  "falsy_or_error decoded =
     (case decoded of Null \<Rightarrow> True | Res_object \<Rightarrow> False | Decoded d \<Rightarrow> c_error d)"

definition decoded_id :: "decoded \<Rightarrow> string option" where
  "decoded_id decoded = (case decoded of Decoded d \<Rightarrow> c_id d | _ \<Rightarrow> None)"

text \<open>
  The opening of the three writing cases (lines 81 to 88, 101 to 108 and 121 to 128, the
  same text): token, account of the token's subject, role in \<open>["Officer", "Admin"]\<close>.
  \<open>Inl r\<close>: the case returns, with the response object as it then is; \<open>Inr r\<close>: the case
  goes on.
\<close>

definition officer_gate :: "env \<Rightarrow> store \<Rightarrow> req \<Rightarrow> res \<Rightarrow> res + res" where
  "officer_gate e s rq r =
     (case decodeJWT e s (cookie_token rq) r True of
        (decoded, r1) \<Rightarrow>
          if falsy_or_error decoded then Inl r1
          else
            (case User_findById (users s) (decoded_id decoded) of
               None \<Rightarrow> Inl (status_json 404 (Message ''User not found'') r1)
             | Some user \<Rightarrow>
                 (case checkAuthorization (u_account_type user) r1 [''Officer'', ''Admin''] of
                    Some r2 \<Rightarrow> Inl r2
                  | None \<Rightarrow> Inr r1)))"

definition body_or_empty :: "body option \<Rightarrow> body" where
  "body_or_empty b =
     (case b of
        Some x \<Rightarrow> x
      | None \<Rightarrow>
          \<lparr>b_appointment_name = None, b_account_type = None, b_account_id = None,
           b_appointment_id = None\<rparr>)"

text \<open>
  \<open>POST /create_appointment\<close> (lines 80 to 98).
\<close>

definition create_appointment :: "env \<Rightarrow> store \<Rightarrow> req \<Rightarrow> res \<Rightarrow> store \<times> res" where
  "create_appointment e s rq r =
     (case officer_gate e s rq r of
        Inl r1 \<Rightarrow> (s, r1)
      | Inr r1 \<Rightarrow>
          (let b = body_or_empty (req_body rq) in
           if falsy (b_appointment_name b) \<or> falsy (b_account_type b) \<or> falsy (b_account_id b)
           then (s, status_json 400 (Message ''Missing appointment details'') r1)
           else
             (let appointment_name = the (b_appointment_name b);
                  account_type = the (b_account_type b);
                  account_id = the (b_account_id b);
                  newAppointment =
                    \<lparr>a_id = new_object_id e, a_appointment_name = appointment_name,
                     a_account_type = account_type, a_account_id = Some account_id\<rparr>;
                  s1 = s\<lparr>appointments := Appointment_save (appointments s) newAppointment\<rparr>;
                  s2 = s1\<lparr>users := User_updateOne (users s1) account_id appointment_name\<rparr>
              in (s2, status_json 201 (Message ''Appointment created successfully'') r1))))"

text \<open>
  \<open>PUT /update_appointment\<close> (lines 100 to 118).
\<close>

definition update_appointment :: "env \<Rightarrow> store \<Rightarrow> req \<Rightarrow> res \<Rightarrow> store \<times> res" where
  "update_appointment e s rq r =
     (case officer_gate e s rq r of
        Inl r1 \<Rightarrow> (s, r1)
      | Inr r1 \<Rightarrow>
          (let b = body_or_empty (req_body rq) in
           if falsy (b_account_id b) \<or> falsy (b_appointment_id b)
           then (s, status_json 400 (Message ''Missing appointment ID or account ID'') r1)
           else
             (let account_id = the (b_account_id b);
                  appointment_id = the (b_appointment_id b)
              in case Appointment_findById (appointments s) appointment_id of
                   None \<Rightarrow> (s, status_json 404 (Message ''Appointment not found'') r1)
                 | Some appointment \<Rightarrow>
                     (s\<lparr>appointments :=
                          Appointment_updateOne (appointments s) appointment_id account_id\<rparr>,
                      status_json 200 (Message ''Appointment updated successfully'') r1))))"

definition protected_names :: "string list" where
  "protected_names =
     [''csm'', ''captain'', ''dy csm'', ''sec 4/5 ps'', ''sec 3 ps'', ''sec 2 ps'', ''sec 1 ps'']"

text \<open>
  \<open>DELETE /delete_appointment\<close> (lines 120 to 140).
\<close>

definition delete_appointment :: "env \<Rightarrow> store \<Rightarrow> req \<Rightarrow> res \<Rightarrow> store \<times> res" where
  "delete_appointment e s rq r =
     (case officer_gate e s rq r of
        Inl r1 \<Rightarrow> (s, r1)
      | Inr r1 \<Rightarrow>
          if falsy (query_id rq)
          then (s, status_json 400 (Message ''Missing appointment ID'') r1)
          else
            (let appointment_id = the (query_id rq)
             in case Appointment_findById (appointments s) appointment_id of
                  None \<Rightarrow> (s, status_json 404 (Message ''Appointment not found'') r1)
                | Some appointment \<Rightarrow>
                    if toLowerCase (a_appointment_name appointment) \<in> set protected_names
                    then (s, status_json 403 (Message ''Core appointments cannot be deleted'') r1)
                    else
                      (s\<lparr>appointments :=
                           Appointment_findByIdAndDelete (appointments s) appointment_id\<rparr>,
                       status_json 200 (Message ''Appointment deleted successfully'') r1)))"

text \<open>
  The \<open>switch\<close> on \<open>routeKey\<close> (lines 56 to 144).
\<close>

definition dispatch :: "env \<Rightarrow> store \<Rightarrow> req \<Rightarrow> res \<Rightarrow> string \<Rightarrow> store \<times> res" where
  "dispatch e s rq r routeKey =
     (if routeKey = ''GET /get_appointments'' then get_appointments e s rq r
      else if routeKey = ''POST /create_appointment'' then create_appointment e s rq r
      else if routeKey = ''PUT /update_appointment'' then update_appointment e s rq r
      else if routeKey = ''DELETE /delete_appointment'' then delete_appointment e s rq r
      else (s, status_json 404 (Message ''Route not found'') r))"

definition routeKey_of :: "req \<Rightarrow> string" where
  "routeKey_of rq = toUpperCase (req_method rq) @ '' '' @ the (x_route rq)"

text \<open>
  The \<open>try\<close> block (lines 45 to 145): \<open>Inl\<close> is a fault thrown inside it.
\<close>

definition try_block :: "env \<Rightarrow> store \<Rightarrow> req \<Rightarrow> res \<Rightarrow> fault + store \<times> res" where
  "try_block e s rq r =
     (if falsy (x_route rq) then Inr (s, status_json 401 (Message ''Missing route in headers'') r)
      else
        (case connect_fault e of
           Some f \<Rightarrow> Inl f
         | None \<Rightarrow> Inr (dispatch e s rq r (routeKey_of rq))))"

text \<open>
  The \<open>catch\<close> block (lines 145 to 148): \<open>handleServerError(err.response.status)\<close>. The
  callee is looked up first, then the argument is evaluated, then the call is made; its
  value is dropped, and the response object is not passed to it.
\<close>

definition catch_block :: "env \<Rightarrow> fault \<Rightarrow> completion" where
  "catch_block e err =
     (case handleServerError e of
        None \<Rightarrow> Rejected (ReferenceError ''handleServerError is not defined'')
      | Some h \<Rightarrow>
          (case fault_response_status err of
             None \<Rightarrow> Rejected (TypeError ''Cannot read properties of undefined'')
           | Some st \<Rightarrow>
               (case h st of
                  Some x \<Rightarrow> Rejected x
                | None \<Rightarrow> Returned)))"

definition new_res :: res where
  "new_res = \<lparr>headers = [], sent = []\<rparr>"

definition handler :: "env \<Rightarrow> store \<Rightarrow> req \<Rightarrow> outcome" where
  "handler e s rq =
     (let r = cors_headers rq new_res in
      if req_method rq = ''OPTIONS''
      then \<lparr>final_store = s, final_res = status_end 200 r, completion = Returned\<rparr>
      else
        (case try_block e s rq r of
           Inr (s1, r1) \<Rightarrow> \<lparr>final_store = s1, final_res = r1, completion = Returned\<rparr>
         | Inl err \<Rightarrow> \<lparr>final_store = s, final_res = r, completion = catch_block e err\<rparr>))"

subsection \<open>Requests that reach a route, and callers that pass the gates\<close>

text \<open>
  A request is routed to \<open>k\<close> when it carries a route header, the database connection
  raises no fault and the \<open>switch\<close> is entered with \<open>routeKey = k\<close>.
\<close>

definition routed :: "env \<Rightarrow> req \<Rightarrow> string \<Rightarrow> bool" where
  "routed e rq k = (\<not> falsy (x_route rq) \<and> connect_fault e = None \<and> routeKey_of rq = k)"

text \<open>
  A valid Officer or Admin credential: the token validates, its claims carry no \<open>error\<close>,
  its subject is an account of the store, and that account's role is Officer or Admin.
\<close>

definition officer_credential :: "env \<Rightarrow> store \<Rightarrow> req \<Rightarrow> bool" where
  "officer_credential e s rq =
     (case decodeJWT_try e s (cookie_token rq) of
        Inl err \<Rightarrow> False
      | Inr d \<Rightarrow>
          \<not> c_error d \<and>
          (case User_findById (users s) (c_id d) of
             None \<Rightarrow> False
           | Some u \<Rightarrow> u_account_type u = Some ''Officer'' \<or> u_account_type u = Some ''Admin''))"

subsection \<open>A small database and some requests\<close>

definition example_verify :: "string \<Rightarrow> string + claims option" where
  "example_verify t =
     (if t = ''officer-token'' then Inr (Some \<lparr>c_id = Some ''u1'', c_exp = Some 2000, c_error = False\<rparr>)
      else if t = ''boy-token'' then Inr (Some \<lparr>c_id = Some ''u2'', c_exp = Some 2000, c_error = False\<rparr>)
      else if t = ''norole-token'' then Inr (Some \<lparr>c_id = Some ''u3'', c_exp = Some 2000, c_error = False\<rparr>)
      else if t = ''stale-token'' then Inr (Some \<lparr>c_id = Some ''u1'', c_exp = Some 1000, c_error = False\<rparr>)
      else if t = ''used-token'' then Inr (Some \<lparr>c_id = Some ''u1'', c_exp = Some 2000, c_error = False\<rparr>)
      else if t = ''empty-token'' then Inr None
      else Inl ''jwt malformed'')"

definition example_env :: env where
  "example_env =
     \<lparr>jwt_verify = example_verify, now_ms = 1000500, connect_fault = None,
      new_object_id = ''a4'', handleServerError = None\<rparr>"

definition example_store :: store where
  "example_store =
     \<lparr>users =
        [\<lparr>u_id = ''u1'', u_account_name = ''Alice'', u_account_type = Some ''Officer'',
          u_appointment = Some ''Captain''\<rparr>,
         \<lparr>u_id = ''u2'', u_account_name = ''Bob'', u_account_type = Some ''Boy'',
          u_appointment = Some ''Bugler''\<rparr>,
         \<lparr>u_id = ''u3'', u_account_name = ''Carol'', u_account_type = None,
          u_appointment = None\<rparr>],
      tokens = [''used-token''],
      appointments =
        [\<lparr>a_id = ''a1'', a_appointment_name = ''Captain'', a_account_type = ''Officer'',
          a_account_id = Some ''u1''\<rparr>,
         \<lparr>a_id = ''a2'', a_appointment_name = ''Bugler'', a_account_type = ''Boy'',
          a_account_id = Some ''u2''\<rparr>,
         \<lparr>a_id = ''a3'', a_appointment_name = ''Drummer'', a_account_type = ''Boy'',
          a_account_id = Some ''u9''\<rparr>]\<rparr>"

text \<open>
  \<open>request m route token b q\<close>: method, route header, cookie token, body and query id.
\<close>

definition request ::
  "string \<Rightarrow> string \<Rightarrow> string option \<Rightarrow> body option \<Rightarrow> string option \<Rightarrow> req" where
  "request m route token b q =
     \<lparr>req_method = m, origin = None, x_route = Some route, cookie_token = token,
      req_body = b, query_id = q\<rparr>"

subsection \<open>The library's own expiry test, as an instance of \<open>jwt_verify\<close>\<close>

text \<open>
  The handler's definitions take \<open>jwt.verify\<close> as the parameter \<open>jwt_verify\<close>. The
  \<open>jsonwebtoken\<close> package that the file requires tests the expiry itself: once the
  signature and the structure of the token are accepted (\<open>decode\<close>), it reads the clock and
  throws an error with the message "jwt expired" when \<open>Math.floor(clock / 1000) >= exp\<close>.
  The function below is that behaviour, at the library's reading \<open>clock_ms\<close> of the clock
  in milliseconds. Line 16 of the source reads the clock again, later; that reading is
  \<open>now_ms\<close>.
\<close>

definition jsonwebtoken_verify ::
  "int \<Rightarrow> (string \<Rightarrow> string + claims option) \<Rightarrow> string \<Rightarrow> string + claims option" where
  "jsonwebtoken_verify clock_ms decode t =
     (case decode t of
        Inl m \<Rightarrow> Inl m
      | Inr None \<Rightarrow> Inr None
      | Inr (Some d) \<Rightarrow>
          (case c_exp d of
             None \<Rightarrow> Inr (Some d)
           | Some x \<Rightarrow> if x \<le> clock_ms div 1000 then Inl ''jwt expired'' else Inr (Some d)))"

definition example_decode :: "string \<Rightarrow> string + claims option" where
  "example_decode t =
     (if t = ''fresh-token'' then Inr (Some \<lparr>c_id = Some ''u1'', c_exp = Some 2000, c_error = False\<rparr>)
      else if t = ''closing-token'' then Inr (Some \<lparr>c_id = Some ''u1'', c_exp = Some 1001, c_error = False\<rparr>)
      else if t = ''old-token'' then Inr (Some \<lparr>c_id = Some ''u1'', c_exp = Some 900, c_error = False\<rparr>)
      else if t = ''used-token'' then Inr (Some \<lparr>c_id = Some ''u1'', c_exp = Some 2000, c_error = False\<rparr>)
      else if t = ''empty-token'' then Inr None
      else Inl ''invalid signature'')"

text \<open>
  The library reads the clock at 1000.999 s and line 16 reads it at 1001.001 s.
\<close>

definition library_env :: env where
  "library_env =
     \<lparr>jwt_verify = jsonwebtoken_verify 1000999 example_decode, now_ms = 1001001,
      connect_fault = None, new_object_id = ''a4'', handleServerError = None\<rparr>"

section \<open>Properties\<close>

subsection \<open>Routing\<close>

text \<open>
  A request whose route key is one of the four cases is not an \<open>OPTIONS\<close> request, so
  the handler enters the \<open>try\<close> block and, once routed, the case of its key.
\<close>

lemma not_options:
  assumes "routeKey_of rq = k"
    and "k \<in> {''GET /get_appointments'', ''POST /create_appointment'', ''PUT /update_appointment'', ''DELETE /delete_appointment''}"
  shows "req_method rq \<noteq> ''OPTIONS''"
proof
  assume "req_method rq = ''OPTIONS''"
  then have "routeKey_of rq = ''OPTIONS '' @ the (x_route rq)"
    by (simp add: routeKey_of_def toUpperCase_def upper_char_def)
  with assms show False by auto
qed

lemma handler_get:
  assumes "routed e rq ''GET /get_appointments''"
  shows "handler e s rq =
     \<lparr>final_store = fst (get_appointments e s rq (cors_headers rq new_res)),
      final_res = snd (get_appointments e s rq (cors_headers rq new_res)),
      completion = Returned\<rparr>"
proof -
  have "req_method rq \<noteq> ''OPTIONS''"
    using assms not_options [of rq] by (simp add: routed_def)
  then show ?thesis
    using assms by (simp add: handler_def try_block_def routed_def dispatch_def split: prod.splits)
qed

lemma handler_create:
  assumes "routed e rq ''POST /create_appointment''"
  shows "handler e s rq =
     \<lparr>final_store = fst (create_appointment e s rq (cors_headers rq new_res)),
      final_res = snd (create_appointment e s rq (cors_headers rq new_res)),
      completion = Returned\<rparr>"
proof -
  have "req_method rq \<noteq> ''OPTIONS''"
    using assms not_options [of rq] by (simp add: routed_def)
  then show ?thesis
    using assms by (simp add: handler_def try_block_def routed_def dispatch_def split: prod.splits)
qed

lemma handler_update:
  assumes "routed e rq ''PUT /update_appointment''"
  shows "handler e s rq =
     \<lparr>final_store = fst (update_appointment e s rq (cors_headers rq new_res)),
      final_res = snd (update_appointment e s rq (cors_headers rq new_res)),
      completion = Returned\<rparr>"
proof -
  have "req_method rq \<noteq> ''OPTIONS''"
    using assms not_options [of rq] by (simp add: routed_def)
  then show ?thesis
    using assms by (simp add: handler_def try_block_def routed_def dispatch_def split: prod.splits)
qed

lemma handler_delete:
  assumes "routed e rq ''DELETE /delete_appointment''"
  shows "handler e s rq =
     \<lparr>final_store = fst (delete_appointment e s rq (cors_headers rq new_res)),
      final_res = snd (delete_appointment e s rq (cors_headers rq new_res)),
      completion = Returned\<rparr>"
proof -
  have "req_method rq \<noteq> ''OPTIONS''"
    using assms not_options [of rq] by (simp add: routed_def)
  then show ?thesis
    using assms by (simp add: handler_def try_block_def routed_def dispatch_def split: prod.splits)
qed

lemma sent_cors [simp]: "sent (cors_headers rq r) = sent r"
  by (simp add: cors_headers_def setHeader_def)

lemma sent_new_res [simp]: "sent new_res = []"
  by (simp add: new_res_def)

lemma sent_status_json [simp]: "sent (status_json st b r) = sent r @ [(st, b)]"
  by (simp add: status_json_def)

lemma decodeJWT_valid:
  "decodeJWT_try e s t = Inr d \<Longrightarrow> decodeJWT e s t r b = (Decoded d, r)"
  by (simp add: decodeJWT_def)

lemma decodeJWT_invalid:
  "decodeJWT_try e s t = Inl err \<Longrightarrow>
   decodeJWT e s t r True = (Res_object, status_json 401 (Message (error_message err)) r)"
  by (simp add: decodeJWT_def)

lemma officer_gate_passes:
  assumes "officer_credential e s rq"
  shows "officer_gate e s rq r = Inr r"
  using assms
  by (auto simp: officer_credential_def officer_gate_def decodeJWT_valid falsy_or_error_def
      decoded_id_def checkAuthorization_def split: sum.splits option.splits)

subsection \<open>The store operations\<close>

text \<open>
  An operation by id acts on the document that find-by-id returns and on no other.
\<close>

lemma find_split:
  "find P xs = Some a \<Longrightarrow> \<exists>ys zs. xs = ys @ a # zs \<and> P a \<and> (\<forall>y \<in> set ys. \<not> P y)"
proof (induction xs)
  case Nil
  then show ?case by simp
next
  case (Cons x xs)
  show ?case
  proof (cases "P x")
    case True
    with Cons.prems have "x = a" by simp
    with True have "x # xs = [] @ a # xs \<and> P a \<and> (\<forall>y \<in> set []. \<not> P y)" by simp
    then show ?thesis by blast
  next
    case False
    with Cons obtain ys zs where "xs = ys @ a # zs" "P a" "\<forall>y \<in> set ys. \<not> P y"
      by auto
    with False have "x # xs = (x # ys) @ a # zs \<and> P a \<and> (\<forall>y \<in> set (x # ys). \<not> P y)"
      by simp
    then show ?thesis by blast
  qed
qed

lemma delete_at:
  "\<forall>y \<in> set ys. a_id y \<noteq> k \<Longrightarrow> a_id a = k \<Longrightarrow>
   Appointment_findByIdAndDelete (ys @ a # zs) k = ys @ zs"
  by (induction ys) auto

lemma update_at:
  "\<forall>y \<in> set ys. a_id y \<noteq> k \<Longrightarrow> a_id a = k \<Longrightarrow>
   Appointment_updateOne (ys @ a # zs) k acc = ys @ a\<lparr>a_account_id := Some acc\<rparr> # zs"
  by (induction ys) auto

lemma find_at:
  "\<forall>y \<in> set ys. \<not> P y \<Longrightarrow> P a \<Longrightarrow> find P (ys @ a # zs) = Some a"
  by (induction ys) auto

lemma Appointment_delete_found:
  assumes "Appointment_findById as k = Some a"
  shows "\<exists>ys zs. as = ys @ a # zs \<and> Appointment_findByIdAndDelete as k = ys @ zs"
proof -
  from assms obtain ys zs where *: "as = ys @ a # zs" "a_id a = k" "\<forall>y \<in> set ys. a_id y \<noteq> k"
    unfolding Appointment_findById_def by (blast dest: find_split)
  then have "Appointment_findByIdAndDelete as k = ys @ zs"
    by (simp add: delete_at)
  with * show ?thesis by blast
qed

lemma Appointment_update_found:
  assumes "Appointment_findById as k = Some a"
  shows "\<exists>ys zs. as = ys @ a # zs \<and>
           Appointment_updateOne as k acc = ys @ a\<lparr>a_account_id := Some acc\<rparr> # zs \<and>
           Appointment_findById (Appointment_updateOne as k acc) k = Some (a\<lparr>a_account_id := Some acc\<rparr>)"
proof -
  from assms obtain ys zs where *: "as = ys @ a # zs" "a_id a = k" "\<forall>y \<in> set ys. a_id y \<noteq> k"
    unfolding Appointment_findById_def by (blast dest: find_split)
  then have u: "Appointment_updateOne as k acc = ys @ a\<lparr>a_account_id := Some acc\<rparr> # zs"
    by (simp add: update_at)
  from * have "find (\<lambda>x. a_id x = k) (ys @ a\<lparr>a_account_id := Some acc\<rparr> # zs)
      = Some (a\<lparr>a_account_id := Some acc\<rparr>)"
    by (intro find_at) auto
  with u * show ?thesis unfolding Appointment_findById_def by auto
qed

subsection \<open>Delete\<close>

lemma delete_found:
  assumes "officer_credential e s rq" "query_id rq = Some k" "k \<noteq> []"
    and "Appointment_findById (appointments s) k = Some a"
  shows "delete_appointment e s rq r =
     (if toLowerCase (a_appointment_name a) \<in> set protected_names
      then (s, status_json 403 (Message ''Core appointments cannot be deleted'') r)
      else (s\<lparr>appointments := Appointment_findByIdAndDelete (appointments s) k\<rparr>,
            status_json 200 (Message ''Appointment deleted successfully'') r))"
  using assms by (simp add: delete_appointment_def officer_gate_passes falsy_def)

text \<open>
  Claim C1. A \<open>DELETE /delete_appointment\<close> request with a valid Officer or Admin
  credential, whose query id resolves to an appointment whose lower-cased name is one of
  the seven protected names, is answered with 403 "Core appointments cannot be deleted"
  and nothing else; the store is left as it was, so the appointment is still found under
  its id afterwards.
\<close>

theorem delete_protected_refused:
  assumes "routed e rq ''DELETE /delete_appointment''"
    and "officer_credential e s rq"
    and "query_id rq = Some k" and "k \<noteq> []"
    and "Appointment_findById (appointments s) k = Some a"
    and "toLowerCase (a_appointment_name a) \<in> set protected_names"
  shows "sent (final_res (handler e s rq)) = [(403, Message ''Core appointments cannot be deleted'')]
       \<and> final_store (handler e s rq) = s
       \<and> Appointment_findById (appointments (final_store (handler e s rq))) k = Some a
       \<and> completion (handler e s rq) = Returned"
  using assms by (simp add: handler_delete delete_found)

theorem delete_protected_refused_witness:
  "sent (final_res (handler example_env example_store
      (request ''DELETE'' ''/delete_appointment'' (Some ''officer-token'') None (Some ''a1''))))
     = [(403, Message ''Core appointments cannot be deleted'')]
   \<and> Appointment_findById (appointments (final_store (handler example_env example_store
      (request ''DELETE'' ''/delete_appointment'' (Some ''officer-token'') None (Some ''a1''))))) ''a1''
     = Some \<lparr>a_id = ''a1'', a_appointment_name = ''Captain'', a_account_type = ''Officer'',
          a_account_id = Some ''u1''\<rparr>"
proof -
  let ?rq = "request ''DELETE'' ''/delete_appointment'' (Some ''officer-token'') None (Some ''a1'')"
  let ?a = "\<lparr>a_id = ''a1'', a_appointment_name = ''Captain'', a_account_type = ''Officer'',
          a_account_id = Some ''u1''\<rparr>"
  have 1: "routed example_env ?rq ''DELETE /delete_appointment''"
    by (simp add: routed_def request_def example_env_def falsy_def routeKey_of_def
        toUpperCase_def upper_char_def)
  have 2: "officer_credential example_env example_store ?rq"
    by (simp add: officer_credential_def request_def decodeJWT_try_def example_env_def
        example_verify_def expired_def Token_findOne_def example_store_def User_findById_def)
  have 3: "query_id ?rq = Some ''a1''" and 4: "''a1'' \<noteq> []"
    by (simp_all add: request_def)
  have 5: "Appointment_findById (appointments example_store) ''a1'' = Some ?a"
    by (simp add: Appointment_findById_def example_store_def)
  have 6: "toLowerCase (a_appointment_name ?a) \<in> set protected_names"
    by (simp add: toLowerCase_def lower_char_def protected_names_def)
  from delete_protected_refused [OF 1 2 3 4 5 6] show ?thesis by blast
qed

text \<open>
  Claim C10. A \<open>DELETE /delete_appointment\<close> request with a valid Officer or Admin
  credential, whose query id resolves to an appointment that is not protected, is answered
  with 200 "Appointment deleted successfully"; the resolved appointment document is the one
  document removed, and the accounts and the token log are left as they were. An account
  that the deleted appointment referred to and whose \<open>appointment\<close> field held the
  appointment's name is found unchanged afterwards, the name still in that field.
\<close>

theorem delete_leaves_accounts:
  assumes "routed e rq ''DELETE /delete_appointment''"
    and "officer_credential e s rq"
    and "query_id rq = Some k" and "k \<noteq> []"
    and "Appointment_findById (appointments s) k = Some a"
    and "toLowerCase (a_appointment_name a) \<notin> set protected_names"
  shows "sent (final_res (handler e s rq)) = [(200, Message ''Appointment deleted successfully'')]
       \<and> (\<exists>ys zs. appointments s = ys @ a # zs
              \<and> appointments (final_store (handler e s rq)) = ys @ zs)
       \<and> users (final_store (handler e s rq)) = users s
       \<and> tokens (final_store (handler e s rq)) = tokens s
       \<and> (\<forall>u. User_findById (users s) (a_account_id a) = Some u
               \<and> u_appointment u = Some (a_appointment_name a)
             \<longrightarrow> User_findById (users (final_store (handler e s rq))) (a_account_id a) = Some u)"
proof -
  have "final_store (handler e s rq)
      = s\<lparr>appointments := Appointment_findByIdAndDelete (appointments s) k\<rparr>"
    and "sent (final_res (handler e s rq)) = [(200, Message ''Appointment deleted successfully'')]"
    using assms by (simp_all add: handler_delete delete_found)
  moreover have "\<exists>ys zs. appointments s = ys @ a # zs
      \<and> Appointment_findByIdAndDelete (appointments s) k = ys @ zs"
    using assms(5) by (rule Appointment_delete_found)
  ultimately show ?thesis by simp
qed

theorem delete_leaves_accounts_witness:
  "sent (final_res (handler example_env example_store
      (request ''DELETE'' ''/delete_appointment'' (Some ''officer-token'') None (Some ''a2''))))
     = [(200, Message ''Appointment deleted successfully'')]
   \<and> User_findById (users (final_store (handler example_env example_store
      (request ''DELETE'' ''/delete_appointment'' (Some ''officer-token'') None (Some ''a2'')))))
        (Some ''u2'')
     = Some \<lparr>u_id = ''u2'', u_account_name = ''Bob'', u_account_type = Some ''Boy'',
          u_appointment = Some ''Bugler''\<rparr>"
proof -
  let ?rq = "request ''DELETE'' ''/delete_appointment'' (Some ''officer-token'') None (Some ''a2'')"
  let ?a = "\<lparr>a_id = ''a2'', a_appointment_name = ''Bugler'', a_account_type = ''Boy'',
          a_account_id = Some ''u2''\<rparr>"
  let ?u = "\<lparr>u_id = ''u2'', u_account_name = ''Bob'', u_account_type = Some ''Boy'',
          u_appointment = Some ''Bugler''\<rparr>"
  have 1: "routed example_env ?rq ''DELETE /delete_appointment''"
    by (simp add: routed_def request_def example_env_def falsy_def routeKey_of_def
        toUpperCase_def upper_char_def)
  have 2: "officer_credential example_env example_store ?rq"
    by (simp add: officer_credential_def request_def decodeJWT_try_def example_env_def
        example_verify_def expired_def Token_findOne_def example_store_def User_findById_def)
  have 3: "query_id ?rq = Some ''a2''" and 4: "''a2'' \<noteq> []"
    by (simp_all add: request_def)
  have 5: "Appointment_findById (appointments example_store) ''a2'' = Some ?a"
    by (simp add: Appointment_findById_def example_store_def)
  have 6: "toLowerCase (a_appointment_name ?a) \<notin> set protected_names"
    by (simp add: toLowerCase_def lower_char_def protected_names_def)
  have 7: "User_findById (users example_store) (a_account_id ?a) = Some ?u
      \<and> u_appointment ?u = Some (a_appointment_name ?a)"
    by (simp add: User_findById_def example_store_def)
  from delete_leaves_accounts [OF 1 2 3 4 5 6] 7 show ?thesis by auto
qed

subsection \<open>Reassign\<close>

lemma update_found:
  assumes "officer_credential e s rq"
    and "b_account_id (body_or_empty (req_body rq)) = Some acc" and "acc \<noteq> []"
    and "b_appointment_id (body_or_empty (req_body rq)) = Some k" and "k \<noteq> []"
    and "Appointment_findById (appointments s) k = Some a"
  shows "update_appointment e s rq r =
     (s\<lparr>appointments := Appointment_updateOne (appointments s) k acc\<rparr>,
      status_json 200 (Message ''Appointment updated successfully'') r)"
  using assms by (simp add: update_appointment_def officer_gate_passes falsy_def)

text \<open>
  Claim C7. A \<open>PUT /update_appointment\<close> request with a valid Officer or Admin
  credential, a body with \<open>account_id\<close> and \<open>appointment_id\<close>, and an appointment id that
  resolves, is answered with 200 "Appointment updated successfully"; the resolved
  appointment's \<open>account_id\<close> is the submitted one afterwards, every other appointment
  is as before, and no account is modified: the account of the old holder and the
  account of the new holder are found as they were.
\<close>

theorem update_leaves_accounts:
  assumes "routed e rq ''PUT /update_appointment''"
    and "officer_credential e s rq"
    and "b_account_id (body_or_empty (req_body rq)) = Some acc" and "acc \<noteq> []"
    and "b_appointment_id (body_or_empty (req_body rq)) = Some k" and "k \<noteq> []"
    and "Appointment_findById (appointments s) k = Some a"
  shows "sent (final_res (handler e s rq)) = [(200, Message ''Appointment updated successfully'')]
       \<and> Appointment_findById (appointments (final_store (handler e s rq))) k
           = Some (a\<lparr>a_account_id := Some acc\<rparr>)
       \<and> (\<exists>ys zs. appointments s = ys @ a # zs
              \<and> appointments (final_store (handler e s rq))
                  = ys @ a\<lparr>a_account_id := Some acc\<rparr> # zs)
       \<and> users (final_store (handler e s rq)) = users s
       \<and> tokens (final_store (handler e s rq)) = tokens s
       \<and> User_findById (users (final_store (handler e s rq))) (a_account_id a)
           = User_findById (users s) (a_account_id a)
       \<and> User_findById (users (final_store (handler e s rq))) (Some acc)
           = User_findById (users s) (Some acc)"
proof -
  have "final_store (handler e s rq)
      = s\<lparr>appointments := Appointment_updateOne (appointments s) k acc\<rparr>"
    and "sent (final_res (handler e s rq)) = [(200, Message ''Appointment updated successfully'')]"
    using assms by (simp_all add: handler_update update_found)
  moreover have "\<exists>ys zs. appointments s = ys @ a # zs \<and>
      Appointment_updateOne (appointments s) k acc = ys @ a\<lparr>a_account_id := Some acc\<rparr> # zs \<and>
      Appointment_findById (Appointment_updateOne (appointments s) k acc) k
        = Some (a\<lparr>a_account_id := Some acc\<rparr>)"
    using assms(7) by (rule Appointment_update_found)
  ultimately show ?thesis by auto
qed

theorem update_leaves_accounts_witness:
  "sent (final_res (handler example_env example_store
      (request ''PUT'' ''/update_appointment'' (Some ''officer-token'')
         (Some \<lparr>b_appointment_name = None, b_account_type = None, b_account_id = Some ''u1'',
                b_appointment_id = Some ''a2''\<rparr>) None)))
     = [(200, Message ''Appointment updated successfully'')]
   \<and> Appointment_findById (appointments (final_store (handler example_env example_store
      (request ''PUT'' ''/update_appointment'' (Some ''officer-token'')
         (Some \<lparr>b_appointment_name = None, b_account_type = None, b_account_id = Some ''u1'',
                b_appointment_id = Some ''a2''\<rparr>) None)))) ''a2''
     = Some \<lparr>a_id = ''a2'', a_appointment_name = ''Bugler'', a_account_type = ''Boy'',
          a_account_id = Some ''u1''\<rparr>
   \<and> users (final_store (handler example_env example_store
      (request ''PUT'' ''/update_appointment'' (Some ''officer-token'')
         (Some \<lparr>b_appointment_name = None, b_account_type = None, b_account_id = Some ''u1'',
                b_appointment_id = Some ''a2''\<rparr>) None))) = users example_store"
proof -
  let ?rq = "request ''PUT'' ''/update_appointment'' (Some ''officer-token'')
         (Some \<lparr>b_appointment_name = None, b_account_type = None, b_account_id = Some ''u1'',
                b_appointment_id = Some ''a2''\<rparr>) None"
  let ?a = "\<lparr>a_id = ''a2'', a_appointment_name = ''Bugler'', a_account_type = ''Boy'',
          a_account_id = Some ''u2''\<rparr>"
  have 1: "routed example_env ?rq ''PUT /update_appointment''"
    by (simp add: routed_def request_def example_env_def falsy_def routeKey_of_def
        toUpperCase_def upper_char_def)
  have 2: "officer_credential example_env example_store ?rq"
    by (simp add: officer_credential_def request_def decodeJWT_try_def example_env_def
        example_verify_def expired_def Token_findOne_def example_store_def User_findById_def)
  have 3: "b_account_id (body_or_empty (req_body ?rq)) = Some ''u1''" and 4: "''u1'' \<noteq> []"
    and 5: "b_appointment_id (body_or_empty (req_body ?rq)) = Some ''a2''" and 6: "''a2'' \<noteq> []"
    by (simp_all add: request_def body_or_empty_def)
  have 7: "Appointment_findById (appointments example_store) ''a2'' = Some ?a"
    by (simp add: Appointment_findById_def example_store_def)
  from update_leaves_accounts [OF 1 2 3 4 5 6 7] show ?thesis by simp
qed

subsection \<open>Create\<close>

lemma User_updateOne_same:
  "User_findById (User_updateOne us k n) (Some k)
     = map_option (\<lambda>u. u\<lparr>u_appointment := Some n\<rparr>) (User_findById us (Some k))"
  by (induction us) (auto simp: User_findById_def)

lemma User_updateOne_other:
  "j \<noteq> k \<Longrightarrow> User_findById (User_updateOne us k n) (Some j) = User_findById us (Some j)"
  by (induction us) (auto simp: User_findById_def)

lemma create_complete:
  assumes "officer_credential e s rq"
    and "b_appointment_name (body_or_empty (req_body rq)) = Some n" and "n \<noteq> []"
    and "b_account_type (body_or_empty (req_body rq)) = Some t" and "t \<noteq> []"
    and "b_account_id (body_or_empty (req_body rq)) = Some k" and "k \<noteq> []"
  shows "create_appointment e s rq r =
     (s\<lparr>appointments :=
          appointments s @
            [\<lparr>a_id = new_object_id e, a_appointment_name = n, a_account_type = t,
              a_account_id = Some k\<rparr>],
        users := User_updateOne (users s) k n\<rparr>,
      status_json 201 (Message ''Appointment created successfully'') r)"
  using assms
  by (simp add: create_appointment_def officer_gate_passes falsy_def Appointment_save_def Let_def)

lemma create_incomplete:
  assumes "falsy (b_appointment_name (body_or_empty (req_body rq)))
         \<or> falsy (b_account_type (body_or_empty (req_body rq)))
         \<or> falsy (b_account_id (body_or_empty (req_body rq)))"
  shows "fst (create_appointment e s rq r) = s"
    and "officer_credential e s rq \<Longrightarrow>
         snd (create_appointment e s rq r) = status_json 400 (Message ''Missing appointment details'') r"
  using assms
  by (auto simp: create_appointment_def officer_gate_passes Let_def split: sum.splits)

text \<open>
  Claim C5. A \<open>POST /create_appointment\<close> request with a valid Officer or Admin
  credential and a body whose \<open>appointment_name\<close>, \<open>account_type\<close> and \<open>account_id\<close> are
  all present is answered with 201 "Appointment created successfully"; one appointment
  document holding exactly the three submitted values is added to the collection, and
  the account with the submitted id, when there is one, has the submitted name in its
  \<open>appointment\<close> field afterwards. Every other account is found as before.
\<close>

theorem create_inserts_and_names_account:
  assumes "routed e rq ''POST /create_appointment''"
    and "officer_credential e s rq"
    and "b_appointment_name (body_or_empty (req_body rq)) = Some n" and "n \<noteq> []"
    and "b_account_type (body_or_empty (req_body rq)) = Some t" and "t \<noteq> []"
    and "b_account_id (body_or_empty (req_body rq)) = Some k" and "k \<noteq> []"
  shows "sent (final_res (handler e s rq)) = [(201, Message ''Appointment created successfully'')]
       \<and> appointments (final_store (handler e s rq))
           = appointments s @
               [\<lparr>a_id = new_object_id e, a_appointment_name = n, a_account_type = t,
                 a_account_id = Some k\<rparr>]
       \<and> User_findById (users (final_store (handler e s rq))) (Some k)
           = map_option (\<lambda>u. u\<lparr>u_appointment := Some n\<rparr>) (User_findById (users s) (Some k))
       \<and> (\<forall>u. User_findById (users (final_store (handler e s rq))) (Some k) = Some u
             \<longrightarrow> u_appointment u = Some n)
       \<and> (\<forall>j. j \<noteq> k \<longrightarrow>
             User_findById (users (final_store (handler e s rq))) (Some j)
               = User_findById (users s) (Some j))
       \<and> tokens (final_store (handler e s rq)) = tokens s"
proof -
  have "final_store (handler e s rq)
      = s\<lparr>appointments :=
            appointments s @
              [\<lparr>a_id = new_object_id e, a_appointment_name = n, a_account_type = t,
                a_account_id = Some k\<rparr>],
          users := User_updateOne (users s) k n\<rparr>"
    and "sent (final_res (handler e s rq)) = [(201, Message ''Appointment created successfully'')]"
    using assms by (simp_all add: handler_create create_complete)
  then show ?thesis
    by (auto simp: User_updateOne_same User_updateOne_other)
qed

theorem create_inserts_and_names_account_witness:
  "sent (final_res (handler example_env example_store
      (request ''POST'' ''/create_appointment'' (Some ''officer-token'')
         (Some \<lparr>b_appointment_name = Some ''Sec 1 PS'', b_account_type = Some ''Boy'',
                b_account_id = Some ''u2'', b_appointment_id = None\<rparr>) None)))
     = [(201, Message ''Appointment created successfully'')]
   \<and> appointments (final_store (handler example_env example_store
      (request ''POST'' ''/create_appointment'' (Some ''officer-token'')
         (Some \<lparr>b_appointment_name = Some ''Sec 1 PS'', b_account_type = Some ''Boy'',
                b_account_id = Some ''u2'', b_appointment_id = None\<rparr>) None)))
     = appointments example_store @
         [\<lparr>a_id = ''a4'', a_appointment_name = ''Sec 1 PS'', a_account_type = ''Boy'',
           a_account_id = Some ''u2''\<rparr>]
   \<and> User_findById (users (final_store (handler example_env example_store
      (request ''POST'' ''/create_appointment'' (Some ''officer-token'')
         (Some \<lparr>b_appointment_name = Some ''Sec 1 PS'', b_account_type = Some ''Boy'',
                b_account_id = Some ''u2'', b_appointment_id = None\<rparr>) None)))) (Some ''u2'')
     = Some \<lparr>u_id = ''u2'', u_account_name = ''Bob'', u_account_type = Some ''Boy'',
          u_appointment = Some ''Sec 1 PS''\<rparr>"
proof -
  let ?rq = "request ''POST'' ''/create_appointment'' (Some ''officer-token'')
         (Some \<lparr>b_appointment_name = Some ''Sec 1 PS'', b_account_type = Some ''Boy'',
                b_account_id = Some ''u2'', b_appointment_id = None\<rparr>) None"
  have 1: "routed example_env ?rq ''POST /create_appointment''"
    by (simp add: routed_def request_def example_env_def falsy_def routeKey_of_def
        toUpperCase_def upper_char_def)
  have 2: "officer_credential example_env example_store ?rq"
    by (simp add: officer_credential_def request_def decodeJWT_try_def example_env_def
        example_verify_def expired_def Token_findOne_def example_store_def User_findById_def)
  have 3: "b_appointment_name (body_or_empty (req_body ?rq)) = Some ''Sec 1 PS''"
    and 4: "''Sec 1 PS'' \<noteq> []"
    and 5: "b_account_type (body_or_empty (req_body ?rq)) = Some ''Boy''" and 6: "''Boy'' \<noteq> []"
    and 7: "b_account_id (body_or_empty (req_body ?rq)) = Some ''u2''" and 8: "''u2'' \<noteq> []"
    by (simp_all add: request_def body_or_empty_def)
  have 9: "User_findById (users example_store) (Some ''u2'')
      = Some \<lparr>u_id = ''u2'', u_account_name = ''Bob'', u_account_type = Some ''Boy'',
          u_appointment = Some ''Bugler''\<rparr>"
    and 10: "new_object_id example_env = ''a4''"
    by (simp_all add: User_findById_def example_store_def example_env_def)
  from create_inserts_and_names_account [OF 1 2 3 4 5 6 7 8] 9 10 show ?thesis by simp
qed

text \<open>
  Claim C6, as amended. A \<open>POST /create_appointment\<close> request in which one of
  \<open>appointment_name\<close>, \<open>account_type\<close> and \<open>account_id\<close> is falsy writes nothing: the
  store afterwards is the store before, appointments and accounts alike. When the caller
  holds a valid Officer or Admin credential, the answer is 400 "Missing appointment
  details". The token and role checks come before the check of the fields, so a caller
  who fails them gets their answer instead.
\<close>

theorem create_incomplete_rejected:
  assumes "routed e rq ''POST /create_appointment''"
    and "falsy (b_appointment_name (body_or_empty (req_body rq)))
         \<or> falsy (b_account_type (body_or_empty (req_body rq)))
         \<or> falsy (b_account_id (body_or_empty (req_body rq)))"
  shows "final_store (handler e s rq) = s
       \<and> (officer_credential e s rq \<longrightarrow>
            sent (final_res (handler e s rq)) = [(400, Message ''Missing appointment details'')])"
  using assms by (simp add: handler_create create_incomplete)

theorem create_incomplete_rejected_witness:
  "final_store (handler example_env example_store
      (request ''POST'' ''/create_appointment'' (Some ''officer-token'')
         (Some \<lparr>b_appointment_name = Some ''Sec 1 PS'', b_account_type = Some [],
                b_account_id = Some ''u2'', b_appointment_id = None\<rparr>) None)) = example_store
   \<and> sent (final_res (handler example_env example_store
      (request ''POST'' ''/create_appointment'' (Some ''officer-token'')
         (Some \<lparr>b_appointment_name = Some ''Sec 1 PS'', b_account_type = Some [],
                b_account_id = Some ''u2'', b_appointment_id = None\<rparr>) None)))
     = [(400, Message ''Missing appointment details'')]
   \<and> final_store (handler example_env example_store
      (request ''POST'' ''/create_appointment'' (Some ''officer-token'') None None)) = example_store
   \<and> sent (final_res (handler example_env example_store
      (request ''POST'' ''/create_appointment'' (Some ''officer-token'') None None)))
     = [(400, Message ''Missing appointment details'')]"
proof -
  let ?rq = "request ''POST'' ''/create_appointment'' (Some ''officer-token'')
         (Some \<lparr>b_appointment_name = Some ''Sec 1 PS'', b_account_type = Some [],
                b_account_id = Some ''u2'', b_appointment_id = None\<rparr>) None"
  let ?rq' = "request ''POST'' ''/create_appointment'' (Some ''officer-token'') None None"
  have 1: "routed example_env ?rq ''POST /create_appointment''"
    and p1: "routed example_env ?rq' ''POST /create_appointment''"
    by (simp_all add: routed_def request_def example_env_def falsy_def routeKey_of_def
        toUpperCase_def upper_char_def)
  have 2: "officer_credential example_env example_store ?rq"
    and p2: "officer_credential example_env example_store ?rq'"
    by (simp_all add: officer_credential_def request_def decodeJWT_try_def example_env_def
        example_verify_def expired_def Token_findOne_def example_store_def User_findById_def)
  have 3: "falsy (b_appointment_name (body_or_empty (req_body ?rq)))
         \<or> falsy (b_account_type (body_or_empty (req_body ?rq)))
         \<or> falsy (b_account_id (body_or_empty (req_body ?rq)))"
    and p3: "falsy (b_appointment_name (body_or_empty (req_body ?rq')))
         \<or> falsy (b_account_type (body_or_empty (req_body ?rq')))
         \<or> falsy (b_account_id (body_or_empty (req_body ?rq')))"
    by (simp_all add: request_def body_or_empty_def falsy_def)
  from create_incomplete_rejected [OF 1 3, of example_store]
    create_incomplete_rejected [OF p1 p3, of example_store] 2 p2
  show ?thesis by blast
qed

text \<open>
  Claim C6 as stated, for every Create request, fails at a caller whose role is Boy: with
  no body at all, the answer is the role gate's 403 and not the 400 of the field check.
\<close>

theorem create_incomplete_by_boy_counterexample:
  "falsy (b_appointment_name (body_or_empty (req_body
      (request ''POST'' ''/create_appointment'' (Some ''boy-token'') None None))))
   \<and> sent (final_res (handler example_env example_store
      (request ''POST'' ''/create_appointment'' (Some ''boy-token'') None None)))
     = [(403, Message ''Invalid token type'')]
   \<and> sent (final_res (handler example_env example_store
      (request ''POST'' ''/create_appointment'' (Some ''boy-token'') None None)))
     \<noteq> [(400, Message ''Missing appointment details'')]"
  by (simp add: handler_def request_def try_block_def example_env_def falsy_def routeKey_of_def
      toUpperCase_def upper_char_def dispatch_def create_appointment_def officer_gate_def
      decodeJWT_def decodeJWT_try_def example_verify_def expired_def Token_findOne_def
      falsy_or_error_def decoded_id_def checkAuthorization_def
      example_store_def User_findById_def body_or_empty_def)

subsection \<open>List\<close>

lemma enrich_loop_map:
  "enrich_loop us as acc =
     acc @ map (\<lambda>a. case User_findById us (a_account_id a) of
                       Some u \<Rightarrow> Enriched (a\<lparr>a_account_id := Some (u_id u)\<rparr>) (u_account_name u)
                     | None \<Rightarrow> Plain a) as"
  by (induction as arbitrary: acc) (auto split: option.splits)

text \<open>
  The account found for an id has that id: the \<open>account_id\<close> written into an enriched
  item is the one the appointment already had.
\<close>

lemma User_findById_id:
  "User_findById us i = Some u \<Longrightarrow> i = Some (u_id u)"
  by (cases i) (auto simp: User_findById_def dest: find_split)

text \<open>
  Claim C8. A \<open>GET /get_appointments\<close> request with a valid credential is answered with
  200 and one item for every appointment of the collection, in the collection's order:
  an appointment whose \<open>account_id\<close> resolves to an account comes with that account's
  \<open>account_name\<close> and \<open>_id\<close>, and an appointment whose account is not found comes as
  the plain document. The store is not changed.
\<close>

theorem list_returns_all_in_order:
  assumes "routed e rq ''GET /get_appointments''"
    and "decodeJWT_try e s (cookie_token rq) = Inr d"
  shows "sent (final_res (handler e s rq)) =
           [(200, Json_list
              (map (\<lambda>a. case User_findById (users s) (a_account_id a) of
                           Some u \<Rightarrow> Enriched (a\<lparr>a_account_id := Some (u_id u)\<rparr>) (u_account_name u)
                         | None \<Rightarrow> Plain a)
                 (appointments s)))]
       \<and> final_store (handler e s rq) = s
       \<and> completion (handler e s rq) = Returned"
proof -
  have "sent (final_res (handler e s rq)) =
      [(200, Json_list (enrich_loop (users s) (appointments s) []))]"
    and "final_store (handler e s rq) = s" and "completion (handler e s rq) = Returned"
    using assms by (simp_all add: handler_get get_appointments_def decodeJWT_valid)
  then show ?thesis by (simp add: enrich_loop_map)
qed

theorem list_returns_all_in_order_witness:
  "sent (final_res (handler example_env example_store
      (request ''GET'' ''/get_appointments'' (Some ''boy-token'') None None)))
     = [(200, Json_list
          [Enriched \<lparr>a_id = ''a1'', a_appointment_name = ''Captain'', a_account_type = ''Officer'',
              a_account_id = Some ''u1''\<rparr> ''Alice'',
           Enriched \<lparr>a_id = ''a2'', a_appointment_name = ''Bugler'', a_account_type = ''Boy'',
              a_account_id = Some ''u2''\<rparr> ''Bob'',
           Plain \<lparr>a_id = ''a3'', a_appointment_name = ''Drummer'', a_account_type = ''Boy'',
              a_account_id = Some ''u9''\<rparr>])]"
proof -
  let ?rq = "request ''GET'' ''/get_appointments'' (Some ''boy-token'') None None"
  have 1: "routed example_env ?rq ''GET /get_appointments''"
    by (simp add: routed_def request_def example_env_def falsy_def routeKey_of_def
        toUpperCase_def upper_char_def)
  have 2: "decodeJWT_try example_env example_store (cookie_token ?rq)
      = Inr \<lparr>c_id = Some ''u2'', c_exp = Some 2000, c_error = False\<rparr>"
    by (simp add: request_def decodeJWT_try_def example_env_def
        example_verify_def expired_def Token_findOne_def example_store_def)
  have 3: "map (\<lambda>a. case User_findById (users example_store) (a_account_id a) of
                     Some u \<Rightarrow> Enriched (a\<lparr>a_account_id := Some (u_id u)\<rparr>) (u_account_name u)
                   | None \<Rightarrow> Plain a)
             (appointments example_store)
      = [Enriched \<lparr>a_id = ''a1'', a_appointment_name = ''Captain'', a_account_type = ''Officer'',
              a_account_id = Some ''u1''\<rparr> ''Alice'',
         Enriched \<lparr>a_id = ''a2'', a_appointment_name = ''Bugler'', a_account_type = ''Boy'',
              a_account_id = Some ''u2''\<rparr> ''Bob'',
         Plain \<lparr>a_id = ''a3'', a_appointment_name = ''Drummer'', a_account_type = ''Boy'',
              a_account_id = Some ''u9''\<rparr>]"
    by (simp add: example_store_def User_findById_def)
  from list_returns_all_in_order [OF 1 2] show ?thesis
    unfolding 3 by blast
qed

subsection \<open>The role gate\<close>

lemma officer_gate_refuses:
  assumes "decodeJWT_try e s (cookie_token rq) = Inr d" and "\<not> c_error d"
    and "User_findById (users s) (c_id d) = Some u"
    and "u_account_type u \<noteq> Some ''Officer''" and "u_account_type u \<noteq> Some ''Admin''"
  shows "officer_gate e s rq r =
     Inl (status_json (if falsy (u_account_type u) then 400 else 403)
            (Message (if falsy (u_account_type u) then ''Missing token type''
                      else ''Invalid token type'')) r)"
  using assms
  by (auto simp: officer_gate_def decodeJWT_valid falsy_or_error_def decoded_id_def
      checkAuthorization_def falsy_def split: option.splits)

text \<open>
  Claim C4. On the create, update and delete routes, a caller whose token validates and
  whose account is found but whose role is neither Officer nor Admin (Primer and Boy
  among them) gets an authorization failure and nothing is written: 400 "Missing token
  type" when the role is absent or empty, 403 "Invalid token type" otherwise. For the
  roles Officer and Admin the gate passes: \<open>checkAuthorization\<close> returns \<open>null\<close> and the
  case goes on without a response.
\<close>

theorem role_gate:
  assumes "k = ''POST /create_appointment'' \<or> k = ''PUT /update_appointment''
         \<or> k = ''DELETE /delete_appointment''"
    and "routed e rq k"
    and "decodeJWT_try e s (cookie_token rq) = Inr d" and "\<not> c_error d"
    and "User_findById (users s) (c_id d) = Some u"
  shows "(u_account_type u \<noteq> Some ''Officer'' \<and> u_account_type u \<noteq> Some ''Admin'' \<longrightarrow>
            final_store (handler e s rq) = s \<and>
            sent (final_res (handler e s rq)) =
              [if falsy (u_account_type u) then (400, Message ''Missing token type'')
               else (403, Message ''Invalid token type'')])
       \<and> (u_account_type u = Some ''Officer'' \<or> u_account_type u = Some ''Admin'' \<longrightarrow>
            officer_gate e s rq r = Inr r
            \<and> checkAuthorization (u_account_type u) r [''Officer'', ''Admin''] = None)"
proof (intro conjI impI)
  assume role: "u_account_type u \<noteq> Some ''Officer'' \<and> u_account_type u \<noteq> Some ''Admin''"
  then have gate: "\<And>r. officer_gate e s rq r =
     Inl (status_json (if falsy (u_account_type u) then 400 else 403)
            (Message (if falsy (u_account_type u) then ''Missing token type''
                      else ''Invalid token type'')) r)"
    using assms(3-5) by (intro officer_gate_refuses) simp_all
  from assms(1,2) show "final_store (handler e s rq) = s"
    by (auto simp: handler_create handler_update handler_delete create_appointment_def
        update_appointment_def delete_appointment_def gate)
  from assms(1,2) show "sent (final_res (handler e s rq)) =
      [if falsy (u_account_type u) then (400, Message ''Missing token type'')
       else (403, Message ''Invalid token type'')]"
    by (auto simp: handler_create handler_update handler_delete create_appointment_def
        update_appointment_def delete_appointment_def gate)
next
  assume role: "u_account_type u = Some ''Officer'' \<or> u_account_type u = Some ''Admin''"
  with assms(3-5) have "officer_credential e s rq"
    by (simp add: officer_credential_def)
  then show "officer_gate e s rq r = Inr r" by (rule officer_gate_passes)
  from role show "checkAuthorization (u_account_type u) r [''Officer'', ''Admin''] = None"
    by (auto simp: checkAuthorization_def)
qed

theorem role_gate_witness:
  "final_store (handler example_env example_store
      (request ''DELETE'' ''/delete_appointment'' (Some ''boy-token'') None (Some ''a2'')))
     = example_store
   \<and> sent (final_res (handler example_env example_store
      (request ''DELETE'' ''/delete_appointment'' (Some ''boy-token'') None (Some ''a2''))))
     = [(403, Message ''Invalid token type'')]
   \<and> final_store (handler example_env example_store
      (request ''PUT'' ''/update_appointment'' (Some ''norole-token'')
         (Some \<lparr>b_appointment_name = None, b_account_type = None, b_account_id = Some ''u3'',
                b_appointment_id = Some ''a1''\<rparr>) None))
     = example_store
   \<and> sent (final_res (handler example_env example_store
      (request ''PUT'' ''/update_appointment'' (Some ''norole-token'')
         (Some \<lparr>b_appointment_name = None, b_account_type = None, b_account_id = Some ''u3'',
                b_appointment_id = Some ''a1''\<rparr>) None)))
     = [(400, Message ''Missing token type'')]
   \<and> officer_gate example_env example_store
        (request ''POST'' ''/create_appointment'' (Some ''officer-token'') None None) new_res
     = Inr new_res"
proof -
  let ?del = "request ''DELETE'' ''/delete_appointment'' (Some ''boy-token'') None (Some ''a2'')"
  let ?put = "request ''PUT'' ''/update_appointment'' (Some ''norole-token'')
         (Some \<lparr>b_appointment_name = None, b_account_type = None, b_account_id = Some ''u3'',
                b_appointment_id = Some ''a1''\<rparr>) None"
  let ?post = "request ''POST'' ''/create_appointment'' (Some ''officer-token'') None None"
  let ?boy = "\<lparr>u_id = ''u2'', u_account_name = ''Bob'', u_account_type = Some ''Boy'',
          u_appointment = Some ''Bugler''\<rparr>"
  let ?carol = "\<lparr>u_id = ''u3'', u_account_name = ''Carol'', u_account_type = None,
          u_appointment = None\<rparr>"
  let ?alice = "\<lparr>u_id = ''u1'', u_account_name = ''Alice'', u_account_type = Some ''Officer'',
          u_appointment = Some ''Captain''\<rparr>"
  have r1: "routed example_env ?del ''DELETE /delete_appointment''"
    and r2: "routed example_env ?put ''PUT /update_appointment''"
    and r3: "routed example_env ?post ''POST /create_appointment''"
    by (simp_all add: routed_def request_def example_env_def falsy_def routeKey_of_def
        toUpperCase_def upper_char_def)
  have d1: "decodeJWT_try example_env example_store (cookie_token ?del)
      = Inr \<lparr>c_id = Some ''u2'', c_exp = Some 2000, c_error = False\<rparr>"
    and d2: "decodeJWT_try example_env example_store (cookie_token ?put)
      = Inr \<lparr>c_id = Some ''u3'', c_exp = Some 2000, c_error = False\<rparr>"
    and d3: "decodeJWT_try example_env example_store (cookie_token ?post)
      = Inr \<lparr>c_id = Some ''u1'', c_exp = Some 2000, c_error = False\<rparr>"
    by (simp_all add: request_def decodeJWT_try_def example_env_def
        example_verify_def expired_def Token_findOne_def example_store_def)
  have u1: "User_findById (users example_store)
        (c_id \<lparr>c_id = Some ''u2'', c_exp = Some 2000, c_error = False\<rparr>) = Some ?boy"
    and u2: "User_findById (users example_store)
        (c_id \<lparr>c_id = Some ''u3'', c_exp = Some 2000, c_error = False\<rparr>) = Some ?carol"
    and u3: "User_findById (users example_store)
        (c_id \<lparr>c_id = Some ''u1'', c_exp = Some 2000, c_error = False\<rparr>) = Some ?alice"
    by (simp_all add: User_findById_def example_store_def)
  have "final_store (handler example_env example_store ?del) = example_store
      \<and> sent (final_res (handler example_env example_store ?del))
          = [(403, Message ''Invalid token type'')]"
    using role_gate [OF _ r1 d1 _ u1] by (simp add: falsy_def)
  moreover have "final_store (handler example_env example_store ?put) = example_store
      \<and> sent (final_res (handler example_env example_store ?put))
          = [(400, Message ''Missing token type'')]"
    using role_gate [OF _ r2 d2 _ u2] by (simp add: falsy_def)
  moreover have "officer_gate example_env example_store ?post new_res = Inr new_res"
    using role_gate [OF _ r3 d3 _ u3, of new_res] by simp
  ultimately show ?thesis by blast
qed

subsection \<open>The token validator\<close>

text \<open>
  With the library's expiry test and its clock reading equal to the one of line 16, an
  integer \<open>exp\<close> that line 16 would refuse has been refused by the library already: the
  branch of line 16 is reached only when the clock has moved on between the two readings.
\<close>

lemma same_reading_never_reaches_line_16:
  assumes "jwt_verify e = jsonwebtoken_verify (now_ms e) decode"
  shows "decodeJWT_try e s token \<noteq> Inl Token_expired"
proof -
  have "\<And>x. 1000 * x < now_ms e \<Longrightarrow> x \<le> now_ms e div 1000"
    by linarith
  with assms show ?thesis
    by (auto simp: decodeJWT_try_def jsonwebtoken_verify_def expired_def
        split: option.splits sum.splits if_splits)
qed

text \<open>
  Claim C3. \<open>decodeJWT\<close> fails with "Missing authorization token" when no token (or an
  empty one) is supplied; with the error of \<open>jwt.verify\<close> when the signature does not
  verify or the token cannot be parsed, and with "Invalid token" when \<open>jwt.verify\<close> returns
  nothing; with "Token expired" when the claims' \<open>exp\<close>, in seconds, is strictly less than
  \<open>Date.now() / 1000\<close>; with "Token already used" when the token string is in the log of
  consumed tokens; and otherwise returns the decoded claims, among them the subject's
  account id. The checks are made in this order, and every failure is sent as a 401 that
  carries exactly that message; without \<open>sendResponse\<close> the failure is \<open>null\<close> and nothing
  is sent. With the \<open>jsonwebtoken\<close> library as \<open>jwt.verify\<close>, a token whose signature
  verifies and whose \<open>exp\<close> is strictly less than the current time fails as expired either
  way: with the library's "jwt expired" when the library's own test catches it, with
  "Token expired" of line 16 otherwise.
\<close>

theorem token_validator:
  "(falsy token \<longrightarrow>
      decodeJWT_try e s token = Inl Missing_authorization_token \<and>
      decodeJWT e s token r True
        = (Res_object, status_json 401 (Message ''Missing authorization token'') r))
 \<and> (token = Some t \<and> t \<noteq> [] \<and> jwt_verify e t = Inl m \<longrightarrow>
      decodeJWT_try e s token = Inl (Verify_error m) \<and>
      decodeJWT e s token r True = (Res_object, status_json 401 (Message m) r))
 \<and> (token = Some t \<and> t \<noteq> [] \<and> jwt_verify e t = Inr None \<longrightarrow>
      decodeJWT_try e s token = Inl Invalid_token \<and>
      decodeJWT e s token r True = (Res_object, status_json 401 (Message ''Invalid token'') r))
 \<and> (token = Some t \<and> t \<noteq> [] \<and> jwt_verify e t = Inr (Some d) \<and>
      c_exp d = Some x \<and> 1000 * x < now_ms e \<longrightarrow>
      decodeJWT_try e s token = Inl Token_expired \<and>
      decodeJWT e s token r True = (Res_object, status_json 401 (Message ''Token expired'') r))
 \<and> (token = Some t \<and> t \<noteq> [] \<and> jwt_verify e t = Inr (Some d) \<and>
      (c_exp d = None \<or> (\<exists>y. c_exp d = Some y \<and> now_ms e \<le> 1000 * y)) \<and> t \<in> set (tokens s) \<longrightarrow>
      decodeJWT_try e s token = Inl Token_already_used \<and>
      decodeJWT e s token r True
        = (Res_object, status_json 401 (Message ''Token already used'') r))
 \<and> (token = Some t \<and> t \<noteq> [] \<and> jwt_verify e t = Inr (Some d) \<and>
      (c_exp d = None \<or> (\<exists>y. c_exp d = Some y \<and> now_ms e \<le> 1000 * y)) \<and> t \<notin> set (tokens s) \<longrightarrow>
      decodeJWT_try e s token = Inr d \<and> decodeJWT e s token r True = (Decoded d, r))
 \<and> (decodeJWT_try e s token = Inl err \<longrightarrow>
      decodeJWT e s token r True = (Res_object, status_json 401 (Message (error_message err)) r) \<and>
      decodeJWT e s token r False = (Null, r))
 \<and> (token = Some t \<and> t \<noteq> [] \<and> jwt_verify e = jsonwebtoken_verify clock_ms decode \<and>
      decode t = Inr (Some d) \<and> c_exp d = Some x \<and> 1000 * x < now_ms e \<longrightarrow>
      decodeJWT e s token r True
        = (Res_object,
           status_json 401
             (Message (if x \<le> clock_ms div 1000 then ''jwt expired'' else ''Token expired'')) r))"
  by (auto simp: decodeJWT_try_def decodeJWT_def falsy_def expired_def Token_findOne_def
      jsonwebtoken_verify_def split: option.splits)

theorem token_validator_witness:
  "decodeJWT library_env example_store None new_res True
     = (Res_object, status_json 401 (Message ''Missing authorization token'') new_res)
 \<and> decodeJWT library_env example_store (Some ''garbage'') new_res True
     = (Res_object, status_json 401 (Message ''invalid signature'') new_res)
 \<and> decodeJWT library_env example_store (Some ''empty-token'') new_res True
     = (Res_object, status_json 401 (Message ''Invalid token'') new_res)
 \<and> decodeJWT library_env example_store (Some ''old-token'') new_res True
     = (Res_object, status_json 401 (Message ''jwt expired'') new_res)
 \<and> decodeJWT library_env example_store (Some ''closing-token'') new_res True
     = (Res_object, status_json 401 (Message ''Token expired'') new_res)
 \<and> decodeJWT library_env example_store (Some ''used-token'') new_res True
     = (Res_object, status_json 401 (Message ''Token already used'') new_res)
 \<and> decodeJWT library_env example_store (Some ''fresh-token'') new_res True
     = (Decoded \<lparr>c_id = Some ''u1'', c_exp = Some 2000, c_error = False\<rparr>, new_res)
 \<and> decodeJWT library_env example_store (Some ''closing-token'') new_res False = (Null, new_res)"
proof -
  let ?fresh = "\<lparr>c_id = Some ''u1'', c_exp = Some 2000, c_error = False\<rparr>"
  let ?closing = "\<lparr>c_id = Some ''u1'', c_exp = Some 1001, c_error = False\<rparr>"
  let ?old = "\<lparr>c_id = Some ''u1'', c_exp = Some 900, c_error = False\<rparr>"
  have lib: "jwt_verify library_env = jsonwebtoken_verify 1000999 example_decode"
    and n: "now_ms library_env = 1001001"
    and l: "tokens example_store = [''used-token'']"
    by (simp_all add: library_env_def example_store_def)
  have dec: "example_decode ''old-token'' = Inr (Some ?old)"
    "example_decode ''closing-token'' = Inr (Some ?closing)"
    by (simp_all add: example_decode_def)
  have v: "jwt_verify library_env ''garbage'' = Inl ''invalid signature''"
    "jwt_verify library_env ''empty-token'' = Inr None"
    "jwt_verify library_env ''old-token'' = Inl ''jwt expired''"
    "jwt_verify library_env ''closing-token'' = Inr (Some ?closing)"
    "jwt_verify library_env ''used-token'' = Inr (Some ?fresh)"
    "jwt_verify library_env ''fresh-token'' = Inr (Some ?fresh)"
    by (simp_all add: library_env_def jsonwebtoken_verify_def example_decode_def)
  have a: "decodeJWT library_env example_store None new_res True
      = (Res_object, status_json 401 (Message ''Missing authorization token'') new_res)"
    using token_validator [of None library_env example_store new_res] by (simp add: falsy_def)
  have b: "decodeJWT library_env example_store (Some ''garbage'') new_res True
      = (Res_object, status_json 401 (Message ''invalid signature'') new_res)"
    using token_validator [of "Some ''garbage''" library_env example_store new_res "''garbage''"
        "''invalid signature''"] v
    by simp
  have c: "decodeJWT library_env example_store (Some ''empty-token'') new_res True
      = (Res_object, status_json 401 (Message ''Invalid token'') new_res)"
    using token_validator [of "Some ''empty-token''" library_env example_store new_res
        "''empty-token''"] v
    by simp
  have d: "decodeJWT library_env example_store (Some ''old-token'') new_res True
      = (Res_object, status_json 401 (Message ''jwt expired'') new_res)"
    using token_validator [of "Some ''old-token''" library_env example_store new_res
        "''old-token''" _ ?old 900 _ 1000999 example_decode] lib n dec
    by simp
  have e: "decodeJWT library_env example_store (Some ''closing-token'') new_res True
      = (Res_object, status_json 401 (Message ''Token expired'') new_res)"
    using token_validator [of "Some ''closing-token''" library_env example_store new_res
        "''closing-token''" _ ?closing 1001] v n
    by simp
  have f: "decodeJWT library_env example_store (Some ''used-token'') new_res True
      = (Res_object, status_json 401 (Message ''Token already used'') new_res)"
    using token_validator [of "Some ''used-token''" library_env example_store new_res
        "''used-token''" _ ?fresh] v n l
    by simp
  have g: "decodeJWT library_env example_store (Some ''fresh-token'') new_res True
      = (Decoded ?fresh, new_res)"
    using token_validator [of "Some ''fresh-token''" library_env example_store new_res
        "''fresh-token''" _ ?fresh] v n l
    by simp
  have "decodeJWT_try library_env example_store (Some ''closing-token'') = Inl Token_expired"
    using token_validator [of "Some ''closing-token''" library_env example_store new_res
        "''closing-token''" _ ?closing 1001] v n
    by simp
  then have h: "decodeJWT library_env example_store (Some ''closing-token'') new_res False
      = (Null, new_res)"
    using token_validator [of "Some ''closing-token''" library_env example_store new_res
        _ _ _ _ Token_expired]
    by simp
  from a b c d e f g h show ?thesis by blast
qed

subsection \<open>Requests whose token does not validate\<close>

text \<open>
  The 401 is sent first and the store is never written. The handler does not stop there:
  the list case does not read the value of \<open>decodeJWT\<close> and goes on to read the
  collections and send the list, and in the writing cases the value is the response
  object, which is truthy and has no \<open>error\<close> property, so the guard of line 82 lets it
  through to the account lookup, which finds nothing for an \<open>undefined\<close> id.
\<close>

lemma failed_validation_list:
  assumes "routed e rq ''GET /get_appointments''"
    and "decodeJWT_try e s (cookie_token rq) = Inl err"
  shows "sent (final_res (handler e s rq)) =
           [(401, Message (error_message err)),
            (200, Json_list
              (map (\<lambda>a. case User_findById (users s) (a_account_id a) of
                           Some u \<Rightarrow> Enriched (a\<lparr>a_account_id := Some (u_id u)\<rparr>) (u_account_name u)
                         | None \<Rightarrow> Plain a)
                 (appointments s)))]"
    and "final_store (handler e s rq) = s"
  using assms
  by (simp_all add: handler_get get_appointments_def decodeJWT_invalid enrich_loop_map)

lemma failed_validation_write:
  assumes "k = ''POST /create_appointment'' \<or> k = ''PUT /update_appointment''
         \<or> k = ''DELETE /delete_appointment''"
    and "routed e rq k"
    and "decodeJWT_try e s (cookie_token rq) = Inl err"
  shows "sent (final_res (handler e s rq)) =
           [(401, Message (error_message err)), (404, Message ''User not found'')]"
    and "final_store (handler e s rq) = s"
proof -
  have gate: "\<And>r. officer_gate e s rq r =
      Inl (status_json 404 (Message ''User not found'')
             (status_json 401 (Message (error_message err)) r))"
    using assms(3)
    by (simp add: officer_gate_def decodeJWT_invalid falsy_or_error_def decoded_id_def
        User_findById_def)
  from assms(1,2) show "sent (final_res (handler e s rq)) =
           [(401, Message (error_message err)), (404, Message ''User not found'')]"
    by (auto simp: handler_create handler_update handler_delete create_appointment_def
        update_appointment_def delete_appointment_def gate)
  from assms(1,2) show "final_store (handler e s rq) = s"
    by (auto simp: handler_create handler_update handler_delete create_appointment_def
        update_appointment_def delete_appointment_def gate)
qed

text \<open>
  Claim C2, at a request the handler can receive: \<open>GET /get_appointments\<close> without a
  token cookie. A request whose token fails validation should get the 401 and no
  appointment data. The handler sends 401 "Missing authorization token" and then sends
  200 with the whole list of appointments, enriched.
\<close>

theorem list_without_token_still_lists:
  "sent (final_res (handler example_env example_store
      (request ''GET'' ''/get_appointments'' None None None)))
     = [(401, Message ''Missing authorization token''),
        (200, Json_list
          [Enriched \<lparr>a_id = ''a1'', a_appointment_name = ''Captain'', a_account_type = ''Officer'',
              a_account_id = Some ''u1''\<rparr> ''Alice'',
           Enriched \<lparr>a_id = ''a2'', a_appointment_name = ''Bugler'', a_account_type = ''Boy'',
              a_account_id = Some ''u2''\<rparr> ''Bob'',
           Plain \<lparr>a_id = ''a3'', a_appointment_name = ''Drummer'', a_account_type = ''Boy'',
              a_account_id = Some ''u9''\<rparr>])]"
  by (simp add: handler_def request_def try_block_def example_env_def falsy_def routeKey_of_def
      toUpperCase_def upper_char_def dispatch_def get_appointments_def decodeJWT_def
      decodeJWT_try_def example_store_def User_findById_def)

subsection \<open>Faults\<close>

text \<open>
  No response of the handler has the status 500.
\<close>

lemma sent_statuses:
  "(st, b) \<in> set (sent (final_res (handler e s rq))) \<Longrightarrow> st \<in> {200, 201, 400, 401, 403, 404}"
  by (auto simp: handler_def try_block_def dispatch_def status_end_def
      get_appointments_def create_appointment_def update_appointment_def delete_appointment_def
      officer_gate_def decodeJWT_def checkAuthorization_def Let_def
      split: if_splits option.splits sum.splits prod.splits)

text \<open>
  A fault of \<open>connectToDatabase()\<close> reaches the \<open>catch\<close> block, which sends nothing; it
  throws in its turn when \<open>handleServerError\<close> is unbound or the fault has no \<open>response\<close>
  property.
\<close>

lemma fault_not_answered:
  assumes "req_method rq \<noteq> ''OPTIONS''" and "\<not> falsy (x_route rq)"
    and "connect_fault e = Some err"
  shows "sent (final_res (handler e s rq)) = []"
    and "final_store (handler e s rq) = s"
    and "handleServerError e = None \<or> fault_response_status err = None \<Longrightarrow>
         \<exists>x. completion (handler e s rq) = Rejected x"
  using assms
  by (auto simp: handler_def try_block_def catch_block_def split: option.splits)

text \<open>
  Claim C9, at a request the handler can receive: the database connection fails with an
  error that has no \<open>response\<close> property. A fault not handled where it is detected should
  be caught at the top level and answered with a generic 500. The \<open>catch\<close> block sends no
  response, and the handler's promise is rejected with the \<open>ReferenceError\<close> of the unbound
  \<open>handleServerError\<close>.
\<close>

theorem connection_fault_rejects:
  "sent (final_res (handler
      (example_env\<lparr>connect_fault :=
         Some \<lparr>fault_message = ''connect ECONNREFUSED'', fault_response_status = None\<rparr>\<rparr>)
      example_store (request ''GET'' ''/get_appointments'' (Some ''officer-token'') None None))) = []
   \<and> completion (handler
      (example_env\<lparr>connect_fault :=
         Some \<lparr>fault_message = ''connect ECONNREFUSED'', fault_response_status = None\<rparr>\<rparr>)
      example_store (request ''GET'' ''/get_appointments'' (Some ''officer-token'') None None))
     = Rejected (ReferenceError ''handleServerError is not defined'')"
  by (simp add: handler_def request_def try_block_def example_env_def falsy_def catch_block_def)

subsection \<open>What the routes never write\<close>

text \<open>
  Whatever the credential and the input, the update and delete routes leave the accounts
  and the token log as they were, and the list route leaves the whole store.
\<close>

lemma update_frame:
  assumes "routed e rq ''PUT /update_appointment''"
  shows "users (final_store (handler e s rq)) = users s"
    and "tokens (final_store (handler e s rq)) = tokens s"
  using assms
  by (auto simp: handler_update update_appointment_def Let_def split: sum.splits option.splits)

lemma delete_frame:
  assumes "routed e rq ''DELETE /delete_appointment''"
  shows "users (final_store (handler e s rq)) = users s"
    and "tokens (final_store (handler e s rq)) = tokens s"
  using assms
  by (auto simp: handler_delete delete_appointment_def Let_def split: sum.splits option.splits)

lemma list_frame:
  assumes "routed e rq ''GET /get_appointments''"
  shows "final_store (handler e s rq) = s"
  using assms
  by (auto simp: handler_get get_appointments_def split: prod.splits)

end
